theory Spec2Isabelle
  imports Main "HOL-Library.Sublist"
begin

section \<open>Python values and the operating system\<close>

text \<open>
  A Python \<open>str\<close> is modelled as a \<open>string\<close>: one \<open>char\<close> per code point, so the model
  covers the code points below 256. Exceptions are values of \<open>error\<close>; a call that can raise
  returns \<open>error + 'a\<close> with \<open>Inl\<close> for the exception.
\<close>

datatype error = TypeError | ValueError | OSError | CollaboratorError

text \<open>
  The slice \<open>xs[-n:]\<close>. For a positive \<open>n\<close> the start index \<open>len(xs) - n\<close> is clipped to 0;
  \<open>xs[-0:]\<close> is the whole list; a negative \<open>n\<close> makes the start index \<open>-n\<close> positive.
\<close>

definition tail_slice :: "int \<Rightarrow> 'a list \<Rightarrow> 'a list" where
  "tail_slice n xs =
     (if 0 < n then drop (length xs - nat n) xs else drop (nat (- n)) xs)"

text \<open>\<open>sub in s\<close> on strings: \<open>sub\<close> occurs in \<open>s\<close> as a contiguous block.\<close>

fun str_contains :: "'a list \<Rightarrow> 'a list \<Rightarrow> bool" where
  "str_contains sub [] = (sub = [])"
| "str_contains sub (c # cs) = (prefix sub (c # cs) \<or> str_contains sub cs)"

text \<open>
  \<open>s.split(sep)\<close>: the occurrences of \<open>sep\<close> are found from the left and do not overlap;
  an empty separator raises \<open>ValueError\<close>. \<open>split_scan\<close> is the scan for a separator already
  known to be non-empty.
\<close>

function split_scan :: "'a list \<Rightarrow> 'a list \<Rightarrow> 'a list list" where
  "split_scan sep [] = [[]]"
| "split_scan sep (c # cs) =
     (if sep \<noteq> [] \<and> prefix sep (c # cs)
      then [] # split_scan sep (drop (length sep) (c # cs))
      else (case split_scan sep cs of
              [] \<Rightarrow> [[c]]
            | w # ws \<Rightarrow> (c # w) # ws))"
  by pat_completeness auto
termination
  by (relation "measure (\<lambda>(sep, s). length s)") (auto simp: neq_Nil_conv)

definition str_split :: "'a list \<Rightarrow> 'a list \<Rightarrow> error + 'a list list" where
  "str_split s sep = (if sep = [] then Inl ValueError else Inr (split_scan sep s))"

text \<open>
  \<open>os.path.dirname\<close> (POSIX): everything up to and including the last slash, with the
  trailing slashes removed unless the head consists of slashes only.
\<close>

definition dirname :: "string \<Rightarrow> string" where
  "dirname p =
     (let head = rev (dropWhile (\<lambda>c. c \<noteq> CHR ''/'') (rev p))
      in if head \<noteq> [] \<and> \<not> list_all (\<lambda>c. c = CHR ''/'') head
         then rev (dropWhile (\<lambda>c. c = CHR ''/'') (rev head))
         else head)"

text \<open>
  The file system as the program sees it, on a POSIX system. A path holds no file, or a
  file with its text and a flag telling whether opening it for reading succeeds.
  \<open>makedirs_ok d\<close> tells whether the file system lets \<open>os.makedirs(d, exist_ok=True)\<close>
  succeed for a non-empty name \<open>d\<close>, and \<open>append_ok p\<close> whether \<open>open(p, 'a')\<close> succeeds.
\<close>

datatype disk_file = Absent | File bool string

record os =
  file_at :: "string \<Rightarrow> disk_file"
  makedirs_ok :: "string \<Rightarrow> bool"
  append_ok :: "string \<Rightarrow> bool"

definition file_text :: "disk_file \<Rightarrow> string" where
  "file_text f = (case f of Absent \<Rightarrow> [] | File r t \<Rightarrow> t)"

text \<open>
  A file opened in text mode with the default \<open>newline=None\<close> is read with universal
  newlines: a carriage return followed by a line feed, and a carriage return alone, reach
  the program as one line feed.
\<close>

fun universal_newlines :: "string \<Rightarrow> string" where
  "universal_newlines [] = []"
| "universal_newlines [c] = (if c = CHR 0x0D then [CHR 0x0A] else [c])"
| "universal_newlines (c # d # cs) =
     (if c = CHR 0x0D
      then (if d = CHR 0x0A then CHR 0x0A # universal_newlines cs
            else CHR 0x0A # universal_newlines (d # cs))
      else c # universal_newlines (d # cs))"

text \<open>\<open>open(p, 'r', encoding='utf-8').read()\<close>\<close>

definition open_read :: "os \<Rightarrow> string \<Rightarrow> error + string" where
  "open_read w p =
     (case file_at w p of File True t \<Rightarrow> Inr (universal_newlines t) | _ \<Rightarrow> Inl OSError)"

text \<open>
  \<open>os.makedirs(d, exist_ok=True)\<close>: the empty name, which \<open>os.path.dirname\<close> gives for a
  bare file name, raises \<open>FileNotFoundError\<close>, an \<open>OSError\<close>.
\<close>

definition os_makedirs :: "os \<Rightarrow> string \<Rightarrow> error + unit" where
  "os_makedirs w d = (if d = [] then Inl OSError
                      else if makedirs_ok w d then Inr () else Inl OSError)"

text \<open>
  \<open>file.write(s)\<close> on a file opened with mode \<open>'a'\<close>, which creates a missing file. On
  writing, a line feed is written as \<open>os.linesep\<close>, which is the line feed itself.
\<close>

definition file_write :: "os \<Rightarrow> string \<Rightarrow> string \<Rightarrow> os" where
  "file_write w p s =
     w\<lparr>file_at := (file_at w)(p :=
          (case file_at w p of Absent \<Rightarrow> File True s | File r t \<Rightarrow> File r (t @ s)))\<rparr>"

section \<open>HistoryBuffer\<close>

record HistoryBuffer =
  file_path :: "string option"
  delimiter :: string
  buffer_size :: int
  buffer :: "string list"

definition default_delimiter :: string where
  "default_delimiter = CHR 0x0A # ''____I_LOVE_YOU_HUYEN____''"

text \<open>
  \<open>__read_file\<close>: every exception of the body is caught and gives the empty list, also the
  \<open>TypeError\<close> of \<open>open(None)\<close>.
\<close>

definition read_file :: "os \<Rightarrow> HistoryBuffer \<Rightarrow> string list" where
  "read_file w hb =
     (case file_path hb of
        None \<Rightarrow> []
      | Some p \<Rightarrow>
          (case open_read w p of
             Inl e \<Rightarrow> []
           | Inr content \<Rightarrow>
               (case str_split content (delimiter hb) of
                  Inl e \<Rightarrow> []
                | Inr entries \<Rightarrow> drop 1 entries)))"

text \<open>
  \<open>__init__\<close>. The \<open>isinstance\<close> checks are the types of the arguments; \<open>if file_path\<close> is
  false for \<open>None\<close> and for the empty string.
\<close>

definition init :: "os \<Rightarrow> int \<Rightarrow> string option \<Rightarrow> string \<Rightarrow> error + HistoryBuffer" where
  "init w capacity path delim =
     (if capacity < 0 then Inl TypeError
      else if length delim < 1 then Inl ValueError
      else
        (let hb = \<lparr>file_path = path, delimiter = delim, buffer_size = capacity, buffer = []\<rparr>
         in if (path \<noteq> None \<and> path \<noteq> Some []) \<and> 0 < capacity
            then Inr (hb\<lparr>buffer := tail_slice (buffer_size hb) (read_file w hb)\<rparr>)
            else Inr hb))"

text \<open>
  \<open>__flush_to_file\<close>: nothing is caught here, so a failure of \<open>os.makedirs\<close> or of \<open>open\<close>
  reaches the caller; \<open>os.path.dirname(None)\<close> is a \<open>TypeError\<close>.
\<close>

definition flush_to_file :: "os \<Rightarrow> HistoryBuffer \<Rightarrow> string \<Rightarrow> error + os" where
  "flush_to_file w hb content =
     (case file_path hb of
        None \<Rightarrow> Inl TypeError
      | Some p \<Rightarrow>
          (case os_makedirs w (dirname p) of
             Inl e \<Rightarrow> Inl e
           | Inr u \<Rightarrow>
               if \<not> append_ok w p then Inl OSError
               else Inr (file_write (file_write w p (delimiter hb)) p content)))"

text \<open>
  \<open>push\<close> returns the outcome together with the file system and the object as the call
  leaves them: an exception does not undo what the statements before it did.
\<close>

definition push :: "os \<Rightarrow> HistoryBuffer \<Rightarrow> string \<Rightarrow> (error + unit) \<times> os \<times> HistoryBuffer" where
  "push w hb content =
     (let hb' = (if 0 < buffer_size hb
                 then hb\<lparr>buffer := tail_slice (buffer_size hb) (buffer hb @ [content])\<rparr>
                 else hb)
      in case file_path hb' of
           None \<Rightarrow> (Inr (), w, hb')
         | Some p \<Rightarrow>
             if str_contains (delimiter hb') content then (Inl ValueError, w, hb')
             else (case flush_to_file w hb' content of
                     Inl e \<Rightarrow> (Inl e, w, hb')
                   | Inr w' \<Rightarrow> (Inr (), w', hb')))"

text \<open>\<open>get\<close>, with the object as the call leaves it.\<close>

definition get :: "os \<Rightarrow> HistoryBuffer \<Rightarrow> int option \<Rightarrow> (error + string list) \<times> HistoryBuffer" where
  "get w hb max_length_arg =
     (case (case max_length_arg of
              Some m \<Rightarrow> if m < 0 then Inl ValueError else Inr m
            | None \<Rightarrow> Inr (buffer_size hb)) of
        Inl e \<Rightarrow> (Inl e, hb)
      | Inr max_length \<Rightarrow>
          if max_length = 0 then (Inr [], hb)
          else if max_length \<le> int (length (buffer hb)) \<or> file_path hb = None
          then (Inr (tail_slice max_length (buffer hb)), hb)
          else (Inr (tail_slice max_length (read_file w hb)), hb))"

text \<open>Pushing a list of entries one after the other, stopping at the first exception.\<close>

fun push_all :: "os \<Rightarrow> HistoryBuffer \<Rightarrow> string list \<Rightarrow> (error + unit) \<times> os \<times> HistoryBuffer" where
  "push_all w hb [] = (Inr (), w, hb)"
| "push_all w hb (e # es) =
     (case push w hb e of
        (Inl err, w', hb') \<Rightarrow> (Inl err, w', hb')
      | (Inr u, w', hb') \<Rightarrow> push_all w' hb' es)"

text \<open>
  The scenario of the module's own demonstration: construct a ring, push the entries in
  order, and call \<open>get\<close>.
\<close>

definition construct_push_get ::
  "os \<Rightarrow> int \<Rightarrow> string option \<Rightarrow> string \<Rightarrow> string list \<Rightarrow> int option \<Rightarrow> error + string list" where
  "construct_push_get w capacity path delim es max_length_arg =
     (case init w capacity path delim of
        Inl e \<Rightarrow> Inl e
      | Inr hb \<Rightarrow>
          (case push_all w hb es of
             (Inl e, w', hb') \<Rightarrow> Inl e
           | (Inr u, w', hb') \<Rightarrow> fst (get w' hb' max_length_arg)))"

text \<open>A file system with no file, in which every directory can be made and every file appended to.\<close>

definition fresh_os :: os where
  "fresh_os = \<lparr>file_at = (\<lambda>p. Absent), makedirs_ok = (\<lambda>d. True), append_ok = (\<lambda>p. True)\<rparr>"

text \<open>
  The restart scenario: construct a ring, push the entries, drop the object, construct a
  second ring with the same arguments on the file system the first one left, and call
  \<open>get()\<close> on it.
\<close>

definition construct_push_restart_get ::
  "os \<Rightarrow> int \<Rightarrow> string option \<Rightarrow> string \<Rightarrow> string list \<Rightarrow> error + string list" where
  "construct_push_restart_get w capacity path delim es =
     (case init w capacity path delim of
        Inl e \<Rightarrow> Inl e
      | Inr hb \<Rightarrow>
          (case push_all w hb es of
             (Inl e, w', hb') \<Rightarrow> Inl e
           | (Inr u, w', hb') \<Rightarrow>
               (case init w' capacity path delim of
                  Inl e \<Rightarrow> Inl e
                | Inr hb2 \<Rightarrow> fst (get w' hb2 None))))"

text \<open>The file at a path is missing, or cannot be opened for reading.\<close>

definition unreadable :: "os \<Rightarrow> string \<Rightarrow> bool" where
  "unreadable w p = (case file_at w p of File True t \<Rightarrow> False | _ \<Rightarrow> True)"



text \<open>
  A ring of capacity 2 on a fresh file system with the separator \<open>|\<close>, and the state that
  three pushes leave.
\<close>

definition demo_ring :: HistoryBuffer where
  "demo_ring = \<lparr>file_path = Some ''./test_history.txt'', delimiter = ''|'',
                 buffer_size = 2, buffer = []\<rparr>"

definition demo_run :: "(error + unit) \<times> os \<times> HistoryBuffer" where
  "demo_run = push_all fresh_os demo_ring [''a'', ''b'', ''c'']"

section \<open>The pattern of the reply\<close>

text \<open>
  \<open>\s\<close> in a \<open>str\<close> pattern (and the characters \<open>str.strip()\<close> removes): the white space
  among the code points below 256.
\<close>

definition is_space :: "char \<Rightarrow> bool" where
  "is_space c = (of_char c \<in> set [9, 10, 11, 12, 13, 28, 29, 30, 31, 32, 133, 160 :: nat])"

text \<open>
  The lookahead \<open>(?=\s*\{|$)\<close> on the rest of the input: white space and then an opening
  brace, or the end of the input, which \<open>$\<close> also sees before one final newline.
\<close>

definition lookahead :: "string \<Rightarrow> bool" where
  "lookahead rest =
     ((case dropWhile is_space rest of [] \<Rightarrow> False | c # cs \<Rightarrow> c = CHR ''{'')
      \<or> rest = [] \<or> rest = [CHR 0x0A])"

text \<open>
  The lazy \<open>.*?\}\<close> after the opening brace, with \<open>re.DOTALL\<close>: the shortest run of any
  characters up to a closing brace at which the lookahead holds. \<open>acc\<close> is the match so far,
  reversed; the result is the match and the rest of the input.
\<close>

fun lazy_body :: "string \<Rightarrow> string \<Rightarrow> (string \<times> string) option" where
  "lazy_body acc [] = None"
| "lazy_body acc (c # cs) =
     (if c = CHR ''}'' \<and> lookahead cs then Some (rev (c # acc), cs)
      else lazy_body (c # acc) cs)"

definition match_at :: "string \<Rightarrow> (string \<times> string) option" where
  "match_at s = (case s of [] \<Rightarrow> None
                 | c # cs \<Rightarrow> if c = CHR ''{'' then lazy_body [c] cs else None)"

lemma lazy_body_shorter: "lazy_body acc s = Some (m, rest) \<Longrightarrow> length rest < length s"
  by (induction s arbitrary: acc) (auto split: if_splits intro: less_SucI)

text \<open>
  \<open>pattern.findall\<close>: the matches from left to right, each search starting where the
  match before it ended.
\<close>

function findall :: "string \<Rightarrow> string list" where
  "findall [] = []"
| "findall (c # cs) =
     (case match_at (c # cs) of
        None \<Rightarrow> findall cs
      | Some (m, rest) \<Rightarrow> m # findall rest)"
  by pat_completeness auto
termination
proof (relation "measure length")
  show "wf (measure length)" by simp
next
  fix c :: char and cs :: string
  show "(cs, c # cs) \<in> measure length" by simp
next
  fix c :: char and cs x2 m rest
  assume "match_at (c # cs) = Some x2" and "(m, rest) = x2"
  then have "lazy_body [c] cs = Some (m, rest)"
    by (auto simp: match_at_def split: if_splits)
  then have "length rest < length cs" by (rule lazy_body_shorter)
  then show "(rest, c # cs) \<in> measure length" by simp
qed

section \<open>JSON values\<close>

text \<open>
  What \<open>json.loads\<close> returns: \<open>None\<close>, a \<open>bool\<close>, a number (kept as its text), a \<open>str\<close>,
  a \<open>list\<close> or a \<open>dict\<close> with \<open>str\<close> keys, as the list of its items.
\<close>

datatype json =
  JNull | JBool bool | JNumber string | JString string
  | JArray "json list" | JObject "(string \<times> json) list"

text \<open>\<open>key in value\<close> and \<open>value[key]\<close> for a \<open>str\<close> key.\<close>

fun json_contains :: "string \<Rightarrow> json \<Rightarrow> error + bool" where
  "json_contains key (JObject kvs) = Inr (key \<in> set (map fst kvs))"
| "json_contains key (JArray xs) = Inr (JString key \<in> set xs)"
| "json_contains key (JString s) = Inr (str_contains key s)"
| "json_contains key v = Inl TypeError"

datatype lookup_error = KeyError | IndexTypeError

fun json_getitem :: "json \<Rightarrow> string \<Rightarrow> lookup_error + json" where
  "json_getitem (JObject kvs) key =
     (case map_of kvs key of None \<Rightarrow> Inl KeyError | Some v \<Rightarrow> Inr v)"
| "json_getitem v key = Inl IndexTypeError"

text \<open>\<open>isinstance(v, str)\<close>\<close>

fun is_str :: "json \<Rightarrow> bool" where
  "is_str (JString s) = True"
| "is_str v = False"

fun str_value :: "json \<Rightarrow> string" where
  "str_value (JString s) = s"
| "str_value v = []"

section \<open>Translator\<close>

text \<open>\<open>sep.join(xs)\<close> and \<open>s.strip()\<close>\<close>

fun str_join :: "string \<Rightarrow> string list \<Rightarrow> string" where
  "str_join sep [] = []"
| "str_join sep [x] = x"
| "str_join sep (x # y # ys) = x @ sep @ str_join sep (y # ys)"

definition str_strip :: "string \<Rightarrow> string" where
  "str_strip s = rev (dropWhile is_space (rev (dropWhile is_space s)))"

text \<open>
  The library functions that \<open>translate\<close> calls and whose results it uses as they are:
  \<open>json.loads\<close>, and \<open>str\<close> on the context (a list of entries, or the empty string when no
  context is asked for) and on the result dictionary.
\<close>

record translation =
  original_text :: string
  translated_text :: string

record python =
  json_loads :: "string \<Rightarrow> error + json"
  str_of_entries :: "string list \<Rightarrow> string"
  str_of_result :: "translation \<Rightarrow> string"

datatype message = SystemMessage string | HumanMessage string

text \<open>The content of the module's \<open>system_message\<close>.\<close>

definition system_message :: string where
  \<open>system_message =
       ''\<newline>''
     @ ''**Enhanced Translation Task Instructions**\<newline>''
     @ ''\<newline>''
     @ ''Welcome to your translation task. You are about to embark on a journey of bridging languages by translating text within a specified range. This task emphasizes precision and cultural sensitivity, ensuring the message traverses linguistic boundaries intact.\<newline>''
     @ ''\<newline>''
     @ ''**Task Overview:**\<newline>''
     @ ''\<newline>''
     @ ''- **Input Language:** The original language of the text.\<newline>''
     @ ''- **Output Language:** The language into which you are translating the text.\<newline>''
     @ ''- **Translation Range:** The exact portion of text assigned for translation.\<newline>''
     @ ''- **Contextual Framework:** Background information and any translations up to the current segment, vital for seamless continuity and accuracy.\<newline>''
     @ ''\<newline>''
     @ ''**Core Principles:**\<newline>''
     @ ''\<newline>''
     @ ''1. **Comprehension Before Translation:** Fully understand the source text's meaning, context, nuances, and intended message. This understanding forms the foundation of a successful translation, ensuring accuracy and avoiding the pitfalls of literal translations.\<newline>''
     @ ''\<newline>''
     @ ''2. **Fluency and Localization:** Adapt the translation to flow naturally in the target language, respecting its cultural, linguistic norms, and sensitivities. Your translation should read as if originally written in the target language.\<newline>''
     @ ''\<newline>''
     @ ''3. **Consistency and Accuracy:** Maintain uniformity in terminology, style, tone, and other elements throughout your translation. Ensure the translation is a faithful representation of the original message without distortions, omissions, or unwarranted additions.\<newline>''
     @ ''\<newline>''
     @ ''4. **Preservation of Original Terms for Specialized Vocabulary:** When it comes to technical terms, professional jargon, or any specialized vocabulary, retain the original terms. This approach ensures that the translation remains accurate and understandable to readers familiar with the subject matter.\<newline>''
     @ ''\<newline>''
     @ ''5. **Engage with the Content:** Reflect on the cultural implications and potential sensitivities of the translation. Localization involves more than language conversion; it's about making the content resonate with the target audience culturally and emotionally.\<newline>''
     @ ''\<newline>''
     @ ''**Your Responsibilities:**\<newline>''
     @ ''\<newline>''
     @ ''1. Translate **only** the designated "translation range."\<newline>''
     @ ''2. Stay within the bounds of the specified segment, refraining from translating beyond.\<newline>''
     @ ''3. Deliver a translation that mirrors the original's meaning and tone, without insertions or exclusions.\<newline>''
     @ ''4. Present your translation in a clean, JSON object format for clarity and consistency.\<newline>''
     @ ''\<newline>''
     @ ''**Submission Format:**\<newline>''
     @ ''\<newline>''
     @ ''Please submit your translated text in a JSON format. This format aids in maintaining clarity and ensures a structured presentation of your translation. Here is how you should structure your submission:\<newline>''
     @ ''\<newline>''
     @ ''```json\<newline>''
     @ ''{\<newline>''
     @ ''    "translated_text": "Insert your translation here."\<newline>''
     @ ''}\<newline>''
     @ ''```\<newline>''
     @ ''\<newline>''
     @ ''Adhere strictly to the format above. Your translation should be the sole content within the JSON object, without any supplementary remarks or alterations to the format.\<newline>''\<close>

text \<open>
  The translator holds its chat model, here the function from the messages to the content
  of the reply or to the exception \<open>invoke\<close> raises, and its history buffer.
\<close>

record Translator =
  chat_model :: "message list \<Rightarrow> error + string"
  history_buffer :: HistoryBuffer

text \<open>\<open>Translator.__init__\<close>: the buffer is constructed with the default separator.\<close>

definition translator_init ::
  "os \<Rightarrow> (message list \<Rightarrow> error + string) \<Rightarrow> int \<Rightarrow> string option \<Rightarrow> error + Translator" where
  "translator_init w model preceding_context_length history_file_path =
     (case init w preceding_context_length history_file_path default_delimiter of
        Inl e \<Rightarrow> Inl e
      | Inr hb \<Rightarrow> Inr \<lparr>chat_model = model, history_buffer = hb\<rparr>)"

text \<open>\<open>human_message_prompt_template.format(...)\<close>\<close>

definition human_message_prompt :: "string \<Rightarrow> string \<Rightarrow> string \<Rightarrow> string \<Rightarrow> string" where
  "human_message_prompt target input_language output_language preceding_context =
     ''\<newline><translation range>\<newline>'' @ target
     @ ''\<newline></translation range>\<newline>\<newline><input language>\<newline>'' @ input_language
     @ ''\<newline></input language>\<newline>\<newline><output language>\<newline>'' @ output_language
     @ ''\<newline></output language>\<newline>\<newline><preceding context>\<newline>'' @ preceding_context
     @ ''\<newline></preceding context>\<newline>\<newline>translation output for the specified translation range:\<newline>''"

text \<open>
  The loop over the matched fragments. \<open>acc\<close> is the list \<open>translated_text\<close> so far; the
  result \<open>None\<close> is the \<open>None\<close> the loop assigns before it breaks, on a fragment that
  \<open>json.loads\<close> rejects, on any exception of the test, and on a value without a \<open>str\<close> under
  \<open>translated_text\<close>.
\<close>

fun collect_translated :: "(string \<Rightarrow> error + json) \<Rightarrow> string list \<Rightarrow> string list \<Rightarrow> string list option" where
  "collect_translated loads acc [] = Some acc"
| "collect_translated loads acc (js # rest) =
     (case loads js of
        Inl e \<Rightarrow> None
      | Inr parsed_json \<Rightarrow>
          (case json_contains ''translated_text'' parsed_json of
             Inl e \<Rightarrow> None
           | Inr False \<Rightarrow> None
           | Inr True \<Rightarrow>
               (case json_getitem parsed_json ''translated_text'' of
                  Inl e \<Rightarrow> None
                | Inr v \<Rightarrow>
                    if is_str v then collect_translated loads (acc @ [str_value v]) rest
                    else None)))"

text \<open>
  From the reply to the text of the result: the fallback to the target on \<open>None\<close>, the
  fragments joined with newlines otherwise.
\<close>

definition extract_translated_text :: "(string \<Rightarrow> error + json) \<Rightarrow> string \<Rightarrow> string \<Rightarrow> string" where
  "extract_translated_text loads target content =
     (case collect_translated loads [] (findall content) of
        None \<Rightarrow> target
      | Some texts \<Rightarrow> str_join [CHR 0x0A] texts)"

text \<open>
  The first half of \<open>translate\<close>: the context is read from the history buffer when asked
  for, the two messages are built, and the chat model is invoked. The result is the content
  of the reply, or the exception raised.
\<close>

definition invoke_chat_model ::
  "python \<Rightarrow> os \<Rightarrow> Translator \<Rightarrow> string \<Rightarrow> string \<Rightarrow> string \<Rightarrow> bool \<Rightarrow> error + string" where
  "invoke_chat_model py w tr target input_language output_language include_preceding_context =
     (case (if include_preceding_context
            then (case fst (get w (history_buffer tr) None) of
                    Inl e \<Rightarrow> Inl e
                  | Inr entries \<Rightarrow> Inr (str_of_entries py entries))
            else Inr []) of
        Inl e \<Rightarrow> Inl e
      | Inr preceding_context \<Rightarrow>
          chat_model tr
            [SystemMessage system_message,
             HumanMessage (human_message_prompt (str_strip target) input_language
                             output_language preceding_context)])"

text \<open>
  \<open>translate\<close>, with the file system and the translator as the call leaves them. An
  exception of the chat model or of \<open>push\<close> reaches the caller.
\<close>

definition translate ::
  "python \<Rightarrow> os \<Rightarrow> Translator \<Rightarrow> string \<Rightarrow> string \<Rightarrow> string \<Rightarrow> bool
     \<Rightarrow> (error + translation) \<times> os \<times> Translator" where
  "translate py w tr target input_language output_language include_preceding_context =
     (case invoke_chat_model py w tr target input_language output_language
             include_preceding_context of
        Inl e \<Rightarrow> (Inl e, w, tr)
      | Inr content \<Rightarrow>
          (let result = \<lparr>original_text = target,
                         translated_text =
                           extract_translated_text (json_loads py) target content\<rparr>
           in case push w (history_buffer tr) (str_of_result py result) of
                (Inl e, w', hb') \<Rightarrow> (Inl e, w', tr\<lparr>history_buffer := hb'\<rparr>)
              | (Inr u, w', hb') \<Rightarrow> (Inr result, w', tr\<lparr>history_buffer := hb'\<rparr>)))"

text \<open>
  A fragment is good when \<open>json.loads\<close> makes it a dictionary with a \<open>str\<close> under
  \<open>translated_text\<close>.
\<close>

definition fragment_ok :: "(string \<Rightarrow> error + json) \<Rightarrow> string \<Rightarrow> bool" where
  "fragment_ok loads js =
     (case loads js of
        Inl e \<Rightarrow> False
      | Inr parsed_json \<Rightarrow>
          (case parsed_json of
             JObject kvs \<Rightarrow>
               (case map_of kvs ''translated_text'' of
                  None \<Rightarrow> False
                | Some v \<Rightarrow> is_str v)
           | _ \<Rightarrow> False))"

section \<open>A JSON decoder and a Python for the concrete runs\<close>

text \<open>
  \<open>translate\<close> takes \<open>json.loads\<close> as a parameter, and what is proved about it holds for
  every decoder. The concrete runs below need one: \<open>json_decode\<close> reads the JSON grammar
  (objects, arrays, strings with the one-letter escapes, numbers, \<open>true\<close>, \<open>false\<close>,
  \<open>null\<close>); it rejects \<open>\u\<close> escapes and the constants \<open>NaN\<close> and \<open>Infinity\<close>, which
  \<open>json.loads\<close> accepts. The recursion is bounded by a counter that the length of the
  input determines.
\<close>

definition json_ws :: "char \<Rightarrow> bool" where
  "json_ws c = (c \<in> set [CHR '' '', CHR 0x09, CHR 0x0A, CHR 0x0D])"

definition unescape :: "char \<Rightarrow> char option" where
  "unescape e =
     (if e = CHR 0x22 \<or> e = CHR 0x5C \<or> e = CHR ''/'' then Some e
      else if e = CHR ''b'' then Some (CHR 0x08)
      else if e = CHR ''f'' then Some (CHR 0x0C)
      else if e = CHR ''n'' then Some (CHR 0x0A)
      else if e = CHR ''r'' then Some (CHR 0x0D)
      else if e = CHR ''t'' then Some (CHR 0x09)
      else None)"

fun scan_string :: "string \<Rightarrow> string \<Rightarrow> (string \<times> string) option" where
  "scan_string acc [] = None"
| "scan_string acc [c] = (if c = CHR 0x22 then Some (rev acc, []) else None)"
| "scan_string acc (c # e # cs) =
     (if c = CHR 0x22 then Some (rev acc, e # cs)
      else if c = CHR 0x5C then
        (case unescape e of None \<Rightarrow> None | Some u \<Rightarrow> scan_string (u # acc) cs)
      else if of_char c < (32 :: nat) then None
      else scan_string (c # acc) (e # cs))"

definition is_digit :: "char \<Rightarrow> bool" where
  "is_digit c = (c \<in> set ''0123456789'')"

definition number_char :: "char \<Rightarrow> bool" where
  "number_char c = (c \<in> set ''0123456789+-.eE'')"

definition valid_number :: "string \<Rightarrow> bool" where
  "valid_number lexeme =
     (let s1 = (case lexeme of [] \<Rightarrow> [] | c # cs \<Rightarrow> if c = CHR ''-'' then cs else lexeme);
          ip = takeWhile is_digit s1;
          r1 = dropWhile is_digit s1;
          int_ok = (ip \<noteq> [] \<and> (length ip = 1 \<or> hd ip \<noteq> CHR ''0''));
          frac = (case r1 of [] \<Rightarrow> (True, [])
                  | c # cs \<Rightarrow> if c = CHR ''.''
                             then (takeWhile is_digit cs \<noteq> [], dropWhile is_digit cs)
                             else (True, r1));
          exp_ok = (case snd frac of [] \<Rightarrow> True
                    | c # cs \<Rightarrow> (c = CHR ''e'' \<or> c = CHR ''E'')
                        \<and> (let ds = (case cs of [] \<Rightarrow> []
                                      | s # t \<Rightarrow> if s = CHR ''+'' \<or> s = CHR ''-'' then t else cs)
                           in ds \<noteq> [] \<and> list_all is_digit ds))
      in int_ok \<and> fst frac \<and> exp_ok)"

definition scan_number :: "string \<Rightarrow> (string \<times> string) option" where
  "scan_number s =
     (let lexeme = takeWhile number_char s
      in if valid_number lexeme then Some (lexeme, dropWhile number_char s) else None)"

text \<open>Storing a key in a dict: a key already there keeps its place and gets the new value.\<close>

fun dict_set :: "(string \<times> json) list \<Rightarrow> string \<Rightarrow> json \<Rightarrow> (string \<times> json) list" where
  "dict_set [] k v = [(k, v)]"
| "dict_set ((k', v') # kvs) k v =
     (if k' = k then (k, v) # kvs else (k', v') # dict_set kvs k v)"

fun parse_value :: "nat \<Rightarrow> string \<Rightarrow> (json \<times> string) option"
  and parse_elements :: "nat \<Rightarrow> json list \<Rightarrow> string \<Rightarrow> (json list \<times> string) option"
  and parse_members ::
    "nat \<Rightarrow> (string \<times> json) list \<Rightarrow> string \<Rightarrow> ((string \<times> json) list \<times> string) option"
where
  "parse_value 0 s = None"
| "parse_value (Suc n) s =
     (case dropWhile json_ws s of
        [] \<Rightarrow> None
      | c # cs \<Rightarrow>
          if c = CHR ''{'' then
            (case dropWhile json_ws cs of
               [] \<Rightarrow> None
             | d # ds \<Rightarrow>
                 if d = CHR ''}'' then Some (JObject [], ds)
                 else (case parse_members n [] (d # ds) of
                         None \<Rightarrow> None
                       | Some (kvs, rest) \<Rightarrow> Some (JObject kvs, rest)))
          else if c = CHR ''['' then
            (case dropWhile json_ws cs of
               [] \<Rightarrow> None
             | d # ds \<Rightarrow>
                 if d = CHR '']'' then Some (JArray [], ds)
                 else (case parse_elements n [] (d # ds) of
                         None \<Rightarrow> None
                       | Some (xs, rest) \<Rightarrow> Some (JArray xs, rest)))
          else if c = CHR 0x22 then
            (case scan_string [] cs of
               None \<Rightarrow> None
             | Some (t, rest) \<Rightarrow> Some (JString t, rest))
          else if prefix ''true'' (c # cs) then Some (JBool True, drop 4 (c # cs))
          else if prefix ''false'' (c # cs) then Some (JBool False, drop 5 (c # cs))
          else if prefix ''null'' (c # cs) then Some (JNull, drop 4 (c # cs))
          else (case scan_number (c # cs) of
                  None \<Rightarrow> None
                | Some (lexeme, rest) \<Rightarrow> Some (JNumber lexeme, rest)))"
| "parse_elements 0 acc s = None"
| "parse_elements (Suc n) acc s =
     (case parse_value n s of
        None \<Rightarrow> None
      | Some (v, rest) \<Rightarrow>
          (case dropWhile json_ws rest of
             [] \<Rightarrow> None
           | c # cs \<Rightarrow>
               if c = CHR '','' then parse_elements n (acc @ [v]) cs
               else if c = CHR '']'' then Some (acc @ [v], cs)
               else None))"
| "parse_members 0 acc s = None"
| "parse_members (Suc n) acc s =
     (case dropWhile json_ws s of
        [] \<Rightarrow> None
      | c # cs \<Rightarrow>
          if c \<noteq> CHR 0x22 then None
          else (case scan_string [] cs of
                  None \<Rightarrow> None
                | Some (k, rest) \<Rightarrow>
                    (case dropWhile json_ws rest of
                       [] \<Rightarrow> None
                     | c2 # cs2 \<Rightarrow>
                         if c2 \<noteq> CHR '':'' then None
                         else (case parse_value n cs2 of
                                 None \<Rightarrow> None
                               | Some (v, rest2) \<Rightarrow>
                                   (case dropWhile json_ws rest2 of
                                      [] \<Rightarrow> None
                                    | c3 # cs3 \<Rightarrow>
                                        if c3 = CHR '','' then parse_members n (dict_set acc k v) cs3
                                        else if c3 = CHR ''}'' then Some (dict_set acc k v, cs3)
                                        else None)))))"

definition json_decode :: "string \<Rightarrow> error + json" where
  "json_decode s =
     (case parse_value (2 * length s + 2) s of
        None \<Rightarrow> Inl ValueError
      | Some (v, rest) \<Rightarrow> if dropWhile json_ws rest = [] then Inr v else Inl ValueError)"

text \<open>
  A Python for the concrete runs: \<open>str\<close> of a list and of the result dictionary as Python
  prints them for strings with no quote, backslash or unprintable character.
\<close>

definition quoted :: "string \<Rightarrow> string" where
  "quoted s = [CHR 0x27] @ s @ [CHR 0x27]"

definition demo_python :: python where
  "demo_python =
     \<lparr>json_loads = json_decode,
      str_of_entries = (\<lambda>es. ''['' @ str_join '', '' (map quoted es) @ '']''),
      str_of_result = (\<lambda>r. ''{'' @ quoted ''original_text'' @ '': '' @ quoted (original_text r)
                           @ '', '' @ quoted ''translated_text'' @ '': ''
                           @ quoted (translated_text r) @ ''}'')\<rparr>"

text \<open>
  A translator as \<open>Translator(chat_model)\<close> constructs it, no history file and a context
  of ten entries, around a chat model that answers every request with the same reply.
\<close>

definition demo_translator :: "string \<Rightarrow> Translator" where
  "demo_translator reply =
     \<lparr>chat_model = (\<lambda>messages. Inr reply),
      history_buffer = \<lparr>file_path = None, delimiter = default_delimiter,
                         buffer_size = 10, buffer = []\<rparr>\<rparr>"

definition bonjour_reply :: string where
  \<open>bonjour_reply = ''{"translated_text": "bonjour"}''\<close>

definition two_fragment_reply :: string where
  \<open>two_fragment_reply = ''{"translated_text": "bon"} {"translated_text": "jour"}''\<close>

section \<open>Properties of the ring\<close>

subsection \<open>Strings and slices\<close>

lemma str_contains_sublist: "str_contains sub s = sublist sub s"
  by (induction s) (auto simp: sublist_Cons_right)

lemma tail_slice_append:
  assumes "0 < c"
  shows "tail_slice c (tail_slice c xs @ ys) = tail_slice c (xs @ ys)"
proof (cases "nat c \<le> length xs")
  case True
  with assms show ?thesis by (simp add: tail_slice_def add.commute)
next
  case False
  with assms show ?thesis by (simp add: tail_slice_def)
qed








lemma default_delimiter_nonempty: "default_delimiter \<noteq> []"
  by (simp add: default_delimiter_def)

subsection \<open>Files\<close>

lemma file_write_perms [simp]:
  "makedirs_ok (file_write w p s) = makedirs_ok w" "append_ok (file_write w p s) = append_ok w"
  by (simp_all add: file_write_def)


lemma open_read_unreadable: "unreadable w p \<Longrightarrow> open_read w p = Inl OSError"
  by (auto simp: unreadable_def open_read_def split: disk_file.splits bool.splits)

lemma read_file_unreadable:
  "file_path hb = Some p \<Longrightarrow> unreadable w p \<Longrightarrow> read_file w hb = []"
  by (simp add: read_file_def open_read_unreadable)

lemma read_file_ignores_buffer: "read_file w (hb\<lparr>buffer := b\<rparr>) = read_file w hb"
  by (simp add: read_file_def split: option.splits sum.splits)




subsection \<open>Construction and push\<close>


lemma push_no_storage:
  "file_path hb = None \<Longrightarrow>
   push w hb e = (Inr (), w,
     if 0 < buffer_size hb
     then hb\<lparr>buffer := tail_slice (buffer_size hb) (buffer hb @ [e])\<rparr> else hb)"
  by (simp add: push_def Let_def)

lemma push_all_no_storage:
  "file_path hb = None \<Longrightarrow>
   push_all w hb es = (Inr (), w,
     if 0 < buffer_size hb \<and> es \<noteq> []
     then hb\<lparr>buffer := tail_slice (buffer_size hb) (buffer hb @ es)\<rparr> else hb)"
proof (induction es arbitrary: hb)
  case Nil
  then show ?case by simp
next
  case (Cons e es)
  then show ?case
    by (simp add: push_no_storage tail_slice_append)
qed




text \<open>
  With a bare file name as the storage location every push of a valid entry raises:
  \<open>os.path.dirname\<close> gives the empty name and \<open>os.makedirs\<close> rejects it.
\<close>

lemma push_bare_file_name_raises:
  assumes "file_path hb = Some p" and "dirname p = []" and "\<not> str_contains (delimiter hb) e"
  shows "fst (push w hb e) = Inl OSError \<and> fst (snd (push w hb e)) = w"
  using assms by (simp add: push_def flush_to_file_def os_makedirs_def Let_def)

lemma dirname_bare_file_name: "dirname ''log.txt'' = []"
  by (simp add: dirname_def)

text \<open>
  A separator with a border does not survive the round trip: with \<open>aa\<close>, the entries \<open>a\<close>
  and \<open>x\<close>, neither containing the separator, are read back as the empty entry and \<open>ax\<close>.
\<close>

lemma bordered_separator_misreads:
  "\<not> str_contains ''aa'' ''a'' \<and> \<not> str_contains ''aa'' ''x''
   \<and> construct_push_restart_get fresh_os 3 (Some ''./log.txt'') ''aa'' [''a'', ''x'']
       = Inr ['''', ''ax'']"
  by (simp add: construct_push_restart_get_def init_def Let_def read_file_def open_read_def
        fresh_os_def push_def flush_to_file_def os_makedirs_def file_write_def str_split_def get_def
        tail_slice_def dirname_def)

section \<open>Claims about the ring\<close>

text \<open>
  Claim C1 as stated: when \<open>push\<close> fails with the delimiter-collision error, the in-memory
  sequence is what it was before the call. It fails on a ring of capacity 3 over
  \<open>./h.txt\<close> with the separator \<open>|\<close>: pushing \<open>a|b\<close> raises \<open>ValueError\<close>, and the memory,
  empty before the call, holds \<open>a|b\<close> after it.
\<close>

theorem push_collision_keeps_memory_counterexample:
  "init fresh_os 3 (Some ''./h.txt'') ''|'' =
     Inr \<lparr>file_path = Some ''./h.txt'', delimiter = ''|'', buffer_size = 3, buffer = []\<rparr>
   \<and> fst (push fresh_os
         \<lparr>file_path = Some ''./h.txt'', delimiter = ''|'', buffer_size = 3, buffer = []\<rparr>
         ''a|b'') = Inl ValueError
   \<and> buffer (snd (snd (push fresh_os
         \<lparr>file_path = Some ''./h.txt'', delimiter = ''|'', buffer_size = 3, buffer = []\<rparr>
         ''a|b''))) = [''a|b'']
   \<and> buffer (snd (snd (push fresh_os
         \<lparr>file_path = Some ''./h.txt'', delimiter = ''|'', buffer_size = 3, buffer = []\<rparr>
         ''a|b'')))
       \<noteq> buffer \<lparr>file_path = Some ''./h.txt'', delimiter = ''|'', buffer_size = 3, buffer = []\<rparr>"
  by (simp add: init_def Let_def read_file_def open_read_def fresh_os_def push_def
        tail_slice_def)

text \<open>
  Claim C1, amended. For a ring with a storage location and a positive capacity, when
  \<open>push\<close> fails with the delimiter-collision error, the storage location is what it was
  before the call, and the in-memory sequence has already received the entry: it is the
  sequence before the call with the entry appended, cut to its last \<open>capacity\<close> entries.
\<close>

theorem push_collision_memory_and_storage:
  assumes "file_path hb = Some p" and "0 < buffer_size hb"
    and "fst (push w hb content) = Inl ValueError"
  shows "snd (push w hb content) =
           (w, hb\<lparr>buffer := tail_slice (buffer_size hb) (buffer hb @ [content])\<rparr>)"
  using assms
  by (auto simp: push_def Let_def flush_to_file_def os_makedirs_def split: if_splits)

theorem push_collision_memory_and_storage_witness:
  "file_path \<lparr>file_path = Some ''./h.txt'', delimiter = ''|'', buffer_size = 2,
               buffer = [''x'', ''y'']\<rparr> = Some ''./h.txt''
   \<and> 0 < buffer_size \<lparr>file_path = Some ''./h.txt'', delimiter = ''|'', buffer_size = 2,
               buffer = [''x'', ''y'']\<rparr>
   \<and> fst (push fresh_os \<lparr>file_path = Some ''./h.txt'', delimiter = ''|'', buffer_size = 2,
               buffer = [''x'', ''y'']\<rparr> ''a|b'') = Inl ValueError
   \<and> snd (push fresh_os \<lparr>file_path = Some ''./h.txt'', delimiter = ''|'', buffer_size = 2,
               buffer = [''x'', ''y'']\<rparr> ''a|b'') =
       (fresh_os, \<lparr>file_path = Some ''./h.txt'', delimiter = ''|'', buffer_size = 2,
               buffer = [''y'', ''a|b'']\<rparr>)"
proof -
  let ?hb = "\<lparr>file_path = Some ''./h.txt'', delimiter = ''|'', buffer_size = 2,
               buffer = [''x'', ''y'']\<rparr>"
  have raised: "fst (push fresh_os ?hb ''a|b'') = Inl ValueError"
    by (simp add: push_def Let_def)
  from push_collision_memory_and_storage [of ?hb "''./h.txt''" fresh_os "''a|b''"] raised
  show ?thesis by (simp add: tail_slice_def)
qed

text \<open>
  Claim C3. A ring constructed with a capacity \<open>c \<ge> 0\<close> and no storage location, after
  \<open>n > c\<close> pushes, answers \<open>get()\<close> with exactly the last \<open>c\<close> pushed entries in insertion
  order; for \<open>c = 0\<close> that is the empty sequence. No call of the scenario raises.
\<close>

theorem get_after_pushes_no_storage:
  assumes "0 \<le> c" and "nat c < length es" and "delim \<noteq> []"
  shows "construct_push_get w c None delim es None = Inr (drop (length es - nat c) es)
         \<and> (c = 0 \<longrightarrow> construct_push_get w c None delim es None = Inr [])"
  using assms
  by (auto simp: construct_push_get_def init_def push_all_no_storage get_def tail_slice_def Let_def)

theorem get_after_pushes_no_storage_witness:
  "(0::int) \<le> 2 \<and> nat 2 < length [''a'', ''b'', ''c''] \<and> default_delimiter \<noteq> []
   \<and> construct_push_get fresh_os 2 None default_delimiter [''a'', ''b'', ''c''] None
       = Inr [''b'', ''c'']"
  using get_after_pushes_no_storage [of 2 "[''a'', ''b'', ''c'']" default_delimiter fresh_os]
  by (simp add: default_delimiter_def)




text \<open>
  Claim C5. On a ring with a storage location, pushing an entry that contains the separator
  raises the validation error, and the file system after the call is the one before it:
  nothing is appended, neither the entry nor a shortened or escaped form of it.
\<close>

theorem push_collision_raises:
  assumes "file_path hb = Some p" and "str_contains (delimiter hb) content"
  shows "fst (push w hb content) = Inl ValueError \<and> fst (snd (push w hb content)) = w"
  using assms by (simp add: push_def Let_def)

theorem push_collision_raises_witness:
  "file_path demo_ring = Some ''./test_history.txt''
   \<and> str_contains (delimiter demo_ring) ''a|b''
   \<and> fst (push fresh_os demo_ring ''a|b'') = Inl ValueError
   \<and> fst (snd (push fresh_os demo_ring ''a|b'')) = fresh_os"
proof -
  have a: "file_path demo_ring = Some ''./test_history.txt''"
    and b: "str_contains (delimiter demo_ring) ''a|b''"
    by (simp_all add: demo_ring_def)
  from push_collision_raises [OF a b, of fresh_os] a b show ?thesis by simp
qed

text \<open>
  Claim C6. A ring constructed with capacity 0 on a storage location has an empty in-memory
  sequence. When a push on it returns, the file at the location holds its former text
  followed by the separator and the entry, every other file is untouched, and the in-memory
  sequence is still empty.
\<close>

theorem push_capacity_zero_appends:
  assumes "init w 0 (Some p) delim = Inr hb" and "fst (push w hb content) = Inr ()"
  shows "buffer hb = [] \<and> buffer (snd (snd (push w hb content))) = []
         \<and> file_text (file_at (fst (snd (push w hb content))) p)
             = file_text (file_at w p) @ delim @ content
         \<and> (\<forall>q. q \<noteq> p \<longrightarrow> file_at (fst (snd (push w hb content))) q = file_at w q)"
  using assms
  by (auto simp: init_def Let_def push_def flush_to_file_def os_makedirs_def file_text_def file_write_def
           split: if_splits disk_file.splits)

text \<open>Such a push returns when the entry is valid and the file system lets the ring write.\<close>

lemma push_capacity_zero_returns:
  assumes "delim \<noteq> []" and "\<not> str_contains delim content"
    and "dirname p \<noteq> []" and "makedirs_ok w (dirname p)" and "append_ok w p"
  shows "\<exists>hb. init w 0 (Some p) delim = Inr hb \<and> fst (push w hb content) = Inr ()"
  using assms by (simp add: init_def Let_def push_def flush_to_file_def os_makedirs_def)

theorem push_capacity_zero_appends_witness:
  "init fresh_os 0 (Some ''./h.txt'') ''|'' =
     Inr \<lparr>file_path = Some ''./h.txt'', delimiter = ''|'', buffer_size = 0, buffer = []\<rparr>
   \<and> fst (push fresh_os
         \<lparr>file_path = Some ''./h.txt'', delimiter = ''|'', buffer_size = 0, buffer = []\<rparr>
         ''hello'') = Inr ()
   \<and> buffer (snd (snd (push fresh_os
         \<lparr>file_path = Some ''./h.txt'', delimiter = ''|'', buffer_size = 0, buffer = []\<rparr>
         ''hello''))) = []
   \<and> file_text (file_at (fst (snd (push fresh_os
         \<lparr>file_path = Some ''./h.txt'', delimiter = ''|'', buffer_size = 0, buffer = []\<rparr>
         ''hello''))) ''./h.txt'') = ''|hello''"
proof -
  let ?hb = "\<lparr>file_path = Some ''./h.txt'', delimiter = ''|'', buffer_size = 0, buffer = []\<rparr>"
  have a: "init fresh_os 0 (Some ''./h.txt'') ''|'' = Inr ?hb"
    by (simp add: init_def)
  have b: "fst (push fresh_os ?hb ''hello'') = Inr ()"
    by (simp add: push_def flush_to_file_def os_makedirs_def fresh_os_def dirname_def)
  have c: "file_text (file_at fresh_os ''./h.txt'') = []"
    by (simp add: fresh_os_def file_text_def)
  from push_capacity_zero_appends [OF a b] a b c show ?thesis by simp
qed

text \<open>
  Claim C7. On a ring with a storage location, \<open>get(max_length)\<close> with \<open>max_length\<close> greater
  than the number of entries in memory returns the last \<open>max_length\<close> entries of a fresh
  read of the storage location, and leaves the ring as it was. The witness is a ring of
  capacity 2 after three pushes: \<open>get(3)\<close> returns the three entries, the first of which
  is no longer in memory.
\<close>

theorem get_beyond_cache_reads_storage:
  assumes "file_path hb = Some p" and "int (length (buffer hb)) < m"
  shows "get w hb (Some m) =
           (Inr (drop (length (read_file w hb) - nat m) (read_file w hb)), hb)"
  using assms by (auto simp: get_def tail_slice_def)

lemma demo_run_state:
  "fst demo_run = Inr ()"
  "snd (snd demo_run) = demo_ring\<lparr>buffer := [''b'', ''c'']\<rparr>"
  "file_at (fst (snd demo_run)) ''./test_history.txt'' = File True ''|a|b|c''"
  by (simp_all add: demo_run_def demo_ring_def push_def flush_to_file_def os_makedirs_def fresh_os_def
        dirname_def file_write_def tail_slice_def Let_def)

theorem get_beyond_cache_reads_storage_witness:
  "file_path (snd (snd demo_run)) = Some ''./test_history.txt''
   \<and> buffer (snd (snd demo_run)) = [''b'', ''c'']
   \<and> int (length (buffer (snd (snd demo_run)))) < 3
   \<and> get (fst (snd demo_run)) (snd (snd demo_run)) (Some 3)
       = (Inr [''a'', ''b'', ''c''], snd (snd demo_run))"
proof -
  have a: "file_path (snd (snd demo_run)) = Some ''./test_history.txt''"
    and b: "buffer (snd (snd demo_run)) = [''b'', ''c'']"
    by (simp_all add: demo_run_state demo_ring_def)
  have c: "int (length (buffer (snd (snd demo_run)))) < 3"
    by (simp add: b)
  have r: "read_file (fst (snd demo_run)) (snd (snd demo_run)) = [''a'', ''b'', ''c'']"
    by (simp add: read_file_def open_read_def str_split_def demo_run_state demo_ring_def)
  from get_beyond_cache_reads_storage [OF a c, of "fst (snd demo_run)"] a b c r
  show ?thesis by simp
qed

text \<open>
  Claim C8. When the file at the storage location is missing or unreadable, reading yields
  the empty sequence and raises nothing: the read itself; the construction of a ring with
  a positive capacity on the location, which returns a ring with an empty in-memory
  sequence; every \<open>get\<close> on that ring; and every \<open>get\<close> that goes to the storage.
\<close>

theorem unreadable_storage_reads_empty:
  assumes "unreadable w p"
  shows "(file_path hb = Some p \<longrightarrow> read_file w hb = [])
       \<and> (0 < c \<and> delim \<noteq> [] \<longrightarrow>
            init w c (Some p) delim =
              Inr \<lparr>file_path = Some p, delimiter = delim, buffer_size = c, buffer = []\<rparr>
            \<and> (\<forall>m. 0 \<le> m \<longrightarrow>
                 fst (get w \<lparr>file_path = Some p, delimiter = delim, buffer_size = c,
                              buffer = []\<rparr> (Some m)) = Inr [])
            \<and> fst (get w \<lparr>file_path = Some p, delimiter = delim, buffer_size = c,
                           buffer = []\<rparr> None) = Inr [])
       \<and> (file_path hb = Some p \<and> int (length (buffer hb)) < m \<longrightarrow>
            fst (get w hb (Some m)) = Inr [])"
  using assms
  by (auto simp: init_def Let_def read_file_unreadable get_def tail_slice_def)

theorem unreadable_storage_reads_empty_witness:
  "unreadable (fresh_os\<lparr>file_at := (\<lambda>q. File False ''|a|b'')\<rparr>) ''./h.txt''
   \<and> read_file (fresh_os\<lparr>file_at := (\<lambda>q. File False ''|a|b'')\<rparr>)
        \<lparr>file_path = Some ''./h.txt'', delimiter = ''|'', buffer_size = 3, buffer = []\<rparr> = []
   \<and> init (fresh_os\<lparr>file_at := (\<lambda>q. File False ''|a|b'')\<rparr>) 3 (Some ''./h.txt'') ''|'' =
        Inr \<lparr>file_path = Some ''./h.txt'', delimiter = ''|'', buffer_size = 3, buffer = []\<rparr>
   \<and> fst (get (fresh_os\<lparr>file_at := (\<lambda>q. File False ''|a|b'')\<rparr>)
        \<lparr>file_path = Some ''./h.txt'', delimiter = ''|'', buffer_size = 3, buffer = []\<rparr>
        (Some 5)) = Inr []
   \<and> fst (get (fresh_os\<lparr>file_at := (\<lambda>q. File False ''|a|b'')\<rparr>)
        \<lparr>file_path = Some ''./h.txt'', delimiter = ''|'', buffer_size = 3, buffer = []\<rparr>
        None) = Inr []"
proof -
  let ?w = "fresh_os\<lparr>file_at := (\<lambda>q. File False ''|a|b'')\<rparr>"
  let ?hb = "\<lparr>file_path = Some ''./h.txt'', delimiter = ''|'', buffer_size = 3, buffer = []\<rparr>"
  have a: "unreadable ?w ''./h.txt''"
    by (simp add: unreadable_def)
  from unreadable_storage_reads_empty [OF a, of ?hb 3 "''|''" 5] a
  show ?thesis by simp
qed

text \<open>
  Claim C10. On a ring with a storage location and a non-empty in-memory sequence,
  \<open>get(max_length)\<close> with \<open>max_length\<close> greater than the number of entries in memory takes
  its result from the storage read alone: the result is the last \<open>max_length\<close> entries of
  what \<open>__read_file\<close> returns, and the ring is left as it was; when the file is missing or
  unreadable the call returns the empty sequence although the memory holds entries; and
  the result is the same whatever shorter sequence the memory holds.
\<close>

theorem get_beyond_cache_ignores_cache:
  assumes "file_path hb = Some p" and "buffer hb \<noteq> []" and "int (length (buffer hb)) < m"
  shows "get w hb (Some m) = (Inr (tail_slice m (read_file w hb)), hb)
       \<and> (unreadable w p \<longrightarrow> get w hb (Some m) = (Inr [], hb))
       \<and> (\<forall>b. int (length b) < m \<longrightarrow>
             fst (get w (hb\<lparr>buffer := b\<rparr>) (Some m)) = fst (get w hb (Some m)))"
  using assms
  by (auto simp: get_def read_file_unreadable read_file_ignores_buffer tail_slice_def)

text \<open>
  The witness is the ring of capacity 2 after three pushes, holding \<open>b\<close> and \<open>c\<close>. On the
  file system the pushes left, \<open>get(3)\<close> returns the three entries of the log; on a file
  system where the file is gone, \<open>get(3)\<close> returns the empty sequence.
\<close>

theorem get_beyond_cache_ignores_cache_witness:
  "file_path (snd (snd demo_run)) = Some ''./test_history.txt''
   \<and> buffer (snd (snd demo_run)) = [''b'', ''c'']
   \<and> buffer (snd (snd demo_run)) \<noteq> []
   \<and> int (length (buffer (snd (snd demo_run)))) < 3
   \<and> read_file (fst (snd demo_run)) (snd (snd demo_run)) = [''a'', ''b'', ''c'']
   \<and> get (fst (snd demo_run)) (snd (snd demo_run)) (Some 3)
       = (Inr [''a'', ''b'', ''c''], snd (snd demo_run))
   \<and> unreadable fresh_os ''./test_history.txt''
   \<and> get fresh_os (snd (snd demo_run)) (Some 3) = (Inr [], snd (snd demo_run))"
proof -
  let ?hb = "snd (snd demo_run)"
  have a: "file_path ?hb = Some ''./test_history.txt''"
    and b: "buffer ?hb = [''b'', ''c'']"
    by (simp_all add: demo_run_state demo_ring_def)
  have b': "buffer ?hb \<noteq> []"
    and c: "int (length (buffer ?hb)) < 3"
    by (simp_all add: b)
  have r: "read_file (fst (snd demo_run)) ?hb = [''a'', ''b'', ''c'']"
    by (simp add: read_file_def open_read_def str_split_def demo_run_state demo_ring_def)
  have u: "unreadable fresh_os ''./test_history.txt''"
    by (simp add: unreadable_def fresh_os_def)
  from get_beyond_cache_ignores_cache [OF a b' c, of "fst (snd demo_run)"]
  have g1: "get (fst (snd demo_run)) ?hb (Some 3) = (Inr [''a'', ''b'', ''c''], ?hb)"
    by (simp add: r tail_slice_def)
  from get_beyond_cache_ignores_cache [OF a b' c, of fresh_os] u
  have g2: "get fresh_os ?hb (Some 3) = (Inr [], ?hb)"
    by blast
  from a b b' c r u g1 g2 show ?thesis by simp
qed

section \<open>Claims about the translator\<close>

lemma findall_bonjour: "findall bonjour_reply = [bonjour_reply]"
  by (simp add: bonjour_reply_def match_at_def lookahead_def)

lemma json_decode_bonjour:
  "json_decode bonjour_reply = Inr (JObject [(''translated_text'', JString ''bonjour'')])"
  unfolding bonjour_reply_def by code_simp

lemma json_decode_bon:
  \<open>json_decode ''{"translated_text": "bon"}''
     = Inr (JObject [(''translated_text'', JString ''bon'')])\<close>
  by code_simp

lemma json_decode_jour:
  \<open>json_decode ''{"translated_text": "jour"}''
     = Inr (JObject [(''translated_text'', JString ''jour'')])\<close>
  by code_simp

lemma demo_translator_init:
  "translator_init w (\<lambda>messages. Inr reply) 10 None = Inr (demo_translator reply)"
  by (simp add: translator_init_def init_def demo_translator_def default_delimiter_def)

text \<open>When \<open>translate\<close> returns, its result holds the target and the extracted text.\<close>

lemma translate_result:
  assumes "invoke_chat_model py w tr target il ol inc = Inr content"
    and "fst (translate py w tr target il ol inc) = Inr res"
  shows "res = \<lparr>original_text = target,
               translated_text = extract_translated_text (json_loads py) target content\<rparr>"
  using assms
  by (auto simp: translate_def Let_def split: prod.splits sum.splits)

text \<open>Without a history file \<open>push\<close> cannot raise, and \<open>translate\<close> returns.\<close>

lemma translate_returns_without_storage:
  assumes "invoke_chat_model py w tr target il ol inc = Inr content"
    and "file_path (history_buffer tr) = None"
  shows "fst (translate py w tr target il ol inc) =
           Inr \<lparr>original_text = target,
                translated_text = extract_translated_text (json_loads py) target content\<rparr>"
  using assms
  by (simp add: translate_def Let_def push_no_storage)

lemma collect_translated_all:
  assumes "list_all2 (\<lambda>js v. \<exists>kvs. loads js = Inr (JObject kvs)
                         \<and> map_of kvs ''translated_text'' = Some (JString v)) frags vs"
  shows "collect_translated loads acc frags = Some (acc @ vs)"
  using assms
proof (induction frags vs arbitrary: acc rule: list_all2_induct)
  case Nil
  then show ?case by simp
next
  case (Cons js frags v vs)
  from Cons.hyps(1) obtain kvs where kvs: "loads js = Inr (JObject kvs)"
    "map_of kvs ''translated_text'' = Some (JString v)" by blast
  from kvs(2) have "(''translated_text'', JString v) \<in> set kvs" by (rule map_of_SomeD)
  then have "''translated_text'' \<in> fst ` set kvs" by force
  with kvs Cons.IH [of "acc @ [v]"] show ?case by simp
qed

text \<open>
  A fragment that is not good makes the loop give \<open>None\<close>, whatever the fragments before
  and after it, and the text of the result is then the target.
\<close>

lemma collect_translated_bad:
  assumes "\<not> list_all (fragment_ok loads) frags"
  shows "collect_translated loads acc frags = None"
  using assms
proof (induction frags arbitrary: acc)
  case Nil
  then show ?case by simp
next
  case (Cons js frags)
  show ?case
  proof (cases "fragment_ok loads js")
    case True
    with Cons show ?thesis
      by (auto simp: fragment_ok_def split: sum.splits json.splits option.splits bool.splits)
  next
    case False
    then show ?thesis
      by (auto simp: fragment_ok_def map_of_eq_None_iff
               split: sum.splits json.splits option.splits bool.splits)
  qed
qed

lemma extract_falls_back:
  "\<not> list_all (fragment_ok loads) (findall content) \<Longrightarrow>
   extract_translated_text loads target content = target"
  by (simp add: extract_translated_text_def collect_translated_bad)

text \<open>A reply in which the pattern finds no fragment gives the empty text, not the target.\<close>

lemma extract_no_fragment:
  "findall content = [] \<Longrightarrow> extract_translated_text loads target content = []"
  by (simp add: extract_translated_text_def)

text \<open>
  Claim C2 says that for a reply with no parseable JSON object the text of the result is
  the original input. The code does so when the pattern finds a fragment that does not
  parse (\<open>extract_falls_back\<close>), and misses the reply in which the pattern finds nothing:
  the loop does not run, the list stays empty, and the join of the empty list is the
  result. For the target \<open>hello\<close> and the reply \<open>I cannot translate this.\<close>, which has no
  brace, \<open>translate\<close> returns the empty text.
\<close>

theorem translate_no_fragment_gives_empty_text:
  "findall ''I cannot translate this.'' = []
   \<and> fst (translate py w (demo_translator ''I cannot translate this.'')
            ''hello'' ''English'' ''French'' True)
       = Inr \<lparr>original_text = ''hello'', translated_text = []\<rparr>
   \<and> translated_text \<lparr>original_text = ''hello'', translated_text = []\<rparr> \<noteq> ''hello''"
proof -
  have f: "findall ''I cannot translate this.'' = []"
    by (simp add: match_at_def)
  have i: "invoke_chat_model py w (demo_translator ''I cannot translate this.'')
             ''hello'' ''English'' ''French'' True = Inr ''I cannot translate this.''"
    by (simp add: invoke_chat_model_def demo_translator_def get_def)
  have "fst (translate py w (demo_translator ''I cannot translate this.'')
            ''hello'' ''English'' ''French'' True)
       = Inr \<lparr>original_text = ''hello'',
              translated_text = extract_translated_text (json_loads py) ''hello''
                                  ''I cannot translate this.''\<rparr>"
    by (rule translate_returns_without_storage [OF i]) (simp add: demo_translator_def)
  with f show ?thesis by (simp add: extract_no_fragment)
qed

text \<open>
  Claim C9. The chat model has replied, and \<open>translate\<close> returns. When every fragment that
  the pattern finds in the reply is parsed by \<open>json.loads\<close> to a dictionary with a \<open>str\<close>
  under \<open>translated_text\<close>, the text of the result is these strings, in the order of the
  fragments, joined with newlines. In particular, for the reply
  \<open>{"translated_text": "bonjour"}\<close>, which \<open>json.loads\<close> parses to the dictionary with
  \<open>bonjour\<close> under \<open>translated_text\<close>, the text of the result is \<open>bonjour\<close>.
\<close>

theorem translate_joins_fragments:
  assumes "invoke_chat_model py w tr target il ol inc = Inr content"
    and "fst (translate py w tr target il ol inc) = Inr res"
  shows "(list_all2 (\<lambda>js v. \<exists>kvs. json_loads py js = Inr (JObject kvs)
                         \<and> map_of kvs ''translated_text'' = Some (JString v))
            (findall content) vs
          \<longrightarrow> translated_text res = str_join [CHR 0x0A] vs)
       \<and> (content = bonjour_reply
          \<and> json_loads py bonjour_reply
              = Inr (JObject [(''translated_text'', JString ''bonjour'')])
          \<longrightarrow> translated_text res = ''bonjour'')"
proof -
  from translate_result [OF assms]
  have res: "translated_text res = extract_translated_text (json_loads py) target content"
    by simp
  have general: "translated_text res = str_join [CHR 0x0A] vs"
    if "list_all2 (\<lambda>js v. \<exists>kvs. json_loads py js = Inr (JObject kvs)
                         \<and> map_of kvs ''translated_text'' = Some (JString v))
            (findall content) vs" for vs
    using collect_translated_all [OF that, of "[]"] res
    by (simp add: extract_translated_text_def)
  have "translated_text res = ''bonjour''"
    if "content = bonjour_reply"
      and "json_loads py bonjour_reply
             = Inr (JObject [(''translated_text'', JString ''bonjour'')])"
    using general [of "[''bonjour'']"] that by (simp add: findall_bonjour)
  with general show ?thesis by blast
qed

text \<open>
  The witness has two parts. A reply with two fragments, whose strings \<open>bon\<close> and \<open>jour\<close>
  come back joined by a newline; and the reply \<open>{"translated_text": "bonjour"}\<close>.
\<close>

theorem translate_joins_fragments_witness:
  \<open>invoke_chat_model demo_python fresh_os (demo_translator two_fragment_reply)
     ''hello'' ''English'' ''French'' True = Inr two_fragment_reply
   \<and> findall two_fragment_reply
       = [''{"translated_text": "bon"}'', ''{"translated_text": "jour"}'']
   \<and> json_loads demo_python ''{"translated_text": "bon"}''
       = Inr (JObject [(''translated_text'', JString ''bon'')])
   \<and> json_loads demo_python ''{"translated_text": "jour"}''
       = Inr (JObject [(''translated_text'', JString ''jour'')])
   \<and> fst (translate demo_python fresh_os (demo_translator two_fragment_reply)
            ''hello'' ''English'' ''French'' True)
       = Inr \<lparr>original_text = ''hello'',
              translated_text = ''bon'' @ [CHR 0x0A] @ ''jour''\<rparr>
   \<and> invoke_chat_model demo_python fresh_os (demo_translator bonjour_reply)
       ''hello'' ''English'' ''French'' True = Inr bonjour_reply
   \<and> json_loads demo_python bonjour_reply
       = Inr (JObject [(''translated_text'', JString ''bonjour'')])
   \<and> fst (translate demo_python fresh_os (demo_translator bonjour_reply)
            ''hello'' ''English'' ''French'' True)
       = Inr \<lparr>original_text = ''hello'', translated_text = ''bonjour''\<rparr>\<close>
proof -
  let ?tr2 = "demo_translator two_fragment_reply"
  let ?tr = "demo_translator bonjour_reply"
  have i2: "invoke_chat_model demo_python fresh_os ?tr2 ''hello'' ''English'' ''French'' True
              = Inr two_fragment_reply"
    by (simp add: invoke_chat_model_def demo_translator_def get_def)
  have f2: \<open>findall two_fragment_reply
              = [''{"translated_text": "bon"}'', ''{"translated_text": "jour"}'']\<close>
    by (simp add: two_fragment_reply_def match_at_def lookahead_def is_space_def)
  have d1: \<open>json_loads demo_python ''{"translated_text": "bon"}''
              = Inr (JObject [(''translated_text'', JString ''bon'')])\<close>
    unfolding demo_python_def by (simp add: json_decode_bon)
  have d2: \<open>json_loads demo_python ''{"translated_text": "jour"}''
              = Inr (JObject [(''translated_text'', JString ''jour'')])\<close>
    unfolding demo_python_def by (simp add: json_decode_jour)
  have all2: "list_all2 (\<lambda>js v. \<exists>kvs. json_loads demo_python js = Inr (JObject kvs)
                            \<and> map_of kvs ''translated_text'' = Some (JString v))
                (findall two_fragment_reply) [''bon'', ''jour'']"
    unfolding f2 by (simp add: d1 d2)
  obtain res2 where r2: "fst (translate demo_python fresh_os ?tr2
                                ''hello'' ''English'' ''French'' True) = Inr res2"
    and o2: "original_text res2 = ''hello''"
    using translate_returns_without_storage [OF i2] by (simp add: demo_translator_def)
  from translate_joins_fragments [OF i2 r2, of "[''bon'', ''jour'']"] all2
  have "translated_text res2 = ''bon'' @ [CHR 0x0A] @ ''jour''" by simp
  with o2 have e2: "res2 = \<lparr>original_text = ''hello'',
                            translated_text = ''bon'' @ [CHR 0x0A] @ ''jour''\<rparr>"
    by simp
  have i: "invoke_chat_model demo_python fresh_os ?tr ''hello'' ''English'' ''French'' True
             = Inr bonjour_reply"
    by (simp add: invoke_chat_model_def demo_translator_def get_def)
  have l: "json_loads demo_python bonjour_reply
             = Inr (JObject [(''translated_text'', JString ''bonjour'')])"
    by (simp add: demo_python_def json_decode_bonjour)
  obtain res where r: "fst (translate demo_python fresh_os ?tr
                              ''hello'' ''English'' ''French'' True) = Inr res"
    and o: "original_text res = ''hello''"
    using translate_returns_without_storage [OF i] by (simp add: demo_translator_def)
  from translate_joins_fragments [OF i r, of "[''bonjour'']"] l
  have "translated_text res = ''bonjour''" by simp
  with o have e: "res = \<lparr>original_text = ''hello'', translated_text = ''bonjour''\<rparr>" by simp
  from i2 f2 d1 d2 r2 e2 i l r e show ?thesis by simp
qed

end
